theory Spec2Isabelle
  imports Complex_Main "HOL-Library.AList"
begin

section \<open>Python values\<close>

text \<open>
  A Python string is a sequence of code points; a code point may be a lone surrogate
  (U+D800 to U+DFFF), which JSON text can carry as an escape.
\<close>

type_synonym pystr = "nat list"

definition ascii :: "string \<Rightarrow> pystr" where
  "ascii s = map of_char s"

text \<open>
  The answer payload, the stored options and the token claims are JSON-like Python values
  (\<^verbatim>\<open>Dict[str, Any]\<close> in the schemas). A dict is an association list read with
  \<open>map_of\<close>; its keys are kept as byte strings, since the code compares them with the
  decimal digits of a question identifier and with fixed ASCII names only. A finite float
  stands for its exact numeric value, as Python compares an int and a float by value;
  \<open>PInf\<close> is an infinity of either sign and \<open>PNaN\<close> a not-a-number. As a value
  read from a request body does, a value nests less deeply than the recursion limit of
  the interpreter, and an int lies within the limit that the interpreter sets on writing
  an int as text.
\<close>

datatype pyval =
    PNone
  | PBool bool
  | PInt int
  | PFloat real
  | PInf
  | PNaN
  | PStr pystr
  | PList "pyval list"
  | PDict "(string \<times> pyval) list"

type_synonym pydict = "(string \<times> pyval) list"

text \<open>The exceptions the modelled code can meet.\<close>

datatype exn =
    TypeError
  | KeyError
  | ValueError
  | OverflowError
  | RecursionError
  | UnicodeEncodeError
  | JWTError
  | ExpiredSignatureError
  | JWTClaimsError

text \<open>Python's truth value of an object, as \<^verbatim>\<open>if question.options:\<close> tests it.\<close>

fun truthy :: "pyval \<Rightarrow> bool" where
  "truthy PNone = False"
| "truthy (PBool b) = b"
| "truthy (PInt i) = (i \<noteq> 0)"
| "truthy (PFloat x) = (x \<noteq> 0)"
| "truthy PInf = True"
| "truthy PNaN = True"
| "truthy (PStr s) = (s \<noteq> [])"
| "truthy (PList xs) = (xs \<noteq> [])"
| "truthy (PDict kvs) = (kvs \<noteq> [])"

text \<open>
  \<^verbatim>\<open>user_answer == question.correct_option_index\<close>: the right-hand side is the integer
  column, or None where it is unset. Python's \<^verbatim>\<open>==\<close> holds between None and None, between
  equal ints, between a bool and the int it is (True is 1, False is 0) and between a
  finite float and the int of the same value; an infinity, a not-a-number, a string, a
  list or a dict is never equal to an int or to None.
\<close>

fun py_eq_index :: "pyval \<Rightarrow> int option \<Rightarrow> bool" where
  "py_eq_index PNone None = True"
| "py_eq_index (PInt j) (Some i) = (j = i)"
| "py_eq_index (PBool b) (Some i) = ((if b then 1 else 0) = i)"
| "py_eq_index (PFloat x) (Some i) = (x = of_int i)"
| "py_eq_index _ _ = False"

text \<open>\<^verbatim>\<open>str(question.id)\<close>: the decimal digits of an int, with a minus sign below zero.\<close>

definition digit_char :: "nat \<Rightarrow> char" where
  "digit_char d = char_of (48 + d)"

function str_nat :: "nat \<Rightarrow> string" where
  "str_nat n = (if n < 10 then [digit_char n] else str_nat (n div 10) @ [digit_char (n mod 10)])"
  by pat_completeness auto
termination
  by (relation "measure (\<lambda>n. n)") auto

declare str_nat.simps [simp del]

definition str_int :: "int \<Rightarrow> string" where
  "str_int i = (if i < 0 then CHR ''-'' # str_nat (nat (- i)) else str_nat (nat i))"

text \<open>\<^verbatim>\<open>k in s\<close> for two strings: \<open>k\<close> occurs in \<open>s\<close> as a contiguous run.\<close>

fun starts_with :: "'a list \<Rightarrow> 'a list \<Rightarrow> bool" where
  "starts_with [] s = True"
| "starts_with (c # cs) [] = False"
| "starts_with (c # cs) (d # ds) = (c = d \<and> starts_with cs ds)"

fun str_contains :: "'a list \<Rightarrow> 'a list \<Rightarrow> bool" where
  "str_contains k [] = (k = [])"
| "str_contains k (c # cs) = (starts_with k (c # cs) \<or> str_contains k cs)"

text \<open>
  \<^verbatim>\<open>question_id in answer_data\<close> with a string on the left: key membership for a dict,
  element membership for a list, substring test for a string, and TypeError for None,
  a bool or a number, which are not iterable.
\<close>

fun py_in :: "string \<Rightarrow> pyval \<Rightarrow> exn + bool" where
  "py_in k (PDict kvs) = Inr (map_of kvs k \<noteq> None)"
| "py_in k (PList xs) = Inr (PStr (ascii k) \<in> set xs)"
| "py_in k (PStr s) = Inr (str_contains (ascii k) s)"
| "py_in k _ = Inl TypeError"

text \<open>
  \<^verbatim>\<open>answer_data[question_id]\<close> with a string index: the value of the key in a dict
  (KeyError when absent); a list or a string takes integer indices only and raises
  TypeError, as does a value that is not subscriptable.
\<close>

fun py_getitem :: "pyval \<Rightarrow> string \<Rightarrow> exn + pyval" where
  "py_getitem (PDict kvs) k = (case map_of kvs k of None \<Rightarrow> Inl KeyError | Some v \<Rightarrow> Inr v)"
| "py_getitem _ k = Inl TypeError"

text \<open>
  \<^verbatim>\<open>print(f"... {v}")\<close> writes the text of \<open>v\<close> to \<^verbatim>\<open>sys.stdout\<close> and raises
  UnicodeEncodeError when the encoding of the stream cannot encode it. Which texts the
  stream takes depends on how the process was started, so the functions below take it as
  their first argument \<open>out\<close>: \<open>out v\<close> holds when the text of \<open>v\<close> can be written. The
  fixed parts of the messages and the numbers in them are ASCII and can always be
  written.

  \<open>utf8_stdout\<close> is the stream of a current interpreter left to its defaults: UTF-8, which
  encodes every code point but a surrogate. A string that is printed itself is written
  as it is; inside a list or a dict it is written as its \<^verbatim>\<open>repr\<close>, which escapes a
  surrogate.
\<close>

definition utf8_stdout :: "pyval \<Rightarrow> bool" where
  "utf8_stdout v = (case v of PStr s \<Rightarrow> list_all (\<lambda>c. c < 55296 \<or> 57343 < c) s | _ \<Rightarrow> True)"

section \<open>The stored rows\<close>

text \<open>
  \<^verbatim>\<open>app/db/models.py\<close>: a Question row and a Result row, with the columns the grading
  reads and writes. \<open>max_score\<close> and \<open>final_score\<close> are Float columns: their type \<open>'f\<close>
  stands for the doubles of the interpreter, \<open>+\<close> on it for the addition of two
  doubles with its rounding and \<open>0\<close> for \<^verbatim>\<open>0.0\<close>; nothing is assumed of them but what a
  theorem states. The examples further down take \<open>real\<close> for \<open>'f\<close> and use small
  whole numbers, on which the addition of doubles is exact. \<open>options\<close> is a JSON
  column, so any value; \<open>correct_option_index\<close> is the integer column, \<open>None\<close> for an
  attribute that holds None.
\<close>

record 'f question =
  qid :: int
  max_score :: 'f
  options :: pyval
  correct_option_index :: "int option"
  test_paper_id :: int

record 'f result =
  user_id :: int
  result_test_paper_id :: int
  final_score :: 'f
  user_answers :: pyval

text \<open>
  The database session: the identifiers of the TestPaper rows, the Question rows and the
  Result rows. Identifier and timestamp of a new Result are the store's and left out, and
  the store itself does not fail and keeps a row as it was added: \<^verbatim>\<open>add\<close>, \<^verbatim>\<open>commit\<close>
  and \<^verbatim>\<open>refresh\<close> succeed.
\<close>

record 'f db =
  test_papers :: "int list"
  questions :: "'f question list"
  results :: "'f result list"

section \<open>The scoring engine\<close>

text \<open>
  \<^verbatim>\<open>submit_test_and_calculate_score\<close>, lines 168 to 176: the answer data is the value under
  the key \<^verbatim>\<open>'user_answers'\<close> when the payload is a dict that has it, the payload itself when
  it is a dict without it, and the empty dict when the payload is no dict.
\<close>

definition normalize_answers :: "pyval \<Rightarrow> pyval" where
  "normalize_answers payload =
     (case payload of
        PDict kvs \<Rightarrow>
          (case map_of kvs ''user_answers'' of
             Some nested \<Rightarrow> nested
           | None \<Rightarrow> PDict kvs)
      | _ \<Rightarrow> PDict [])"

text \<open>
  Lines 185 to 235, the loop over the questions with its running total. An unanswered
  question is skipped. For an answered one, line 194 prints the answer and lines 197 and
  198 print the options; then \<open>max_score\<close> is added when the options are truthy and the
  answer compares equal to the correct index. A TypeError of \<^verbatim>\<open>in\<close> or of the
  subscript and a UnicodeEncodeError of \<^verbatim>\<open>print\<close> leave the loop.
\<close>

fun score_loop :: "(pyval \<Rightarrow> bool) \<Rightarrow> pyval \<Rightarrow> ('f::plus) question list \<Rightarrow> 'f \<Rightarrow> exn + 'f" where
  "score_loop out answer_data [] total_score = Inr total_score"
| "score_loop out answer_data (q # qs) total_score =
     (case py_in (str_int (qid q)) answer_data of
        Inl e \<Rightarrow> Inl e
      | Inr False \<Rightarrow> score_loop out answer_data qs total_score
      | Inr True \<Rightarrow>
          (case py_getitem answer_data (str_int (qid q)) of
             Inl e \<Rightarrow> Inl e
           | Inr user_answer \<Rightarrow>
               if \<not> out user_answer then Inl UnicodeEncodeError
               else if \<not> out (options q) then Inl UnicodeEncodeError
               else if truthy (options q) then
                 if py_eq_index user_answer (correct_option_index q)
                 then score_loop out answer_data qs (total_score + max_score q)
                 else score_loop out answer_data qs total_score
               else score_loop out answer_data qs total_score))"

text \<open>
  Line 182: \<^verbatim>\<open>max_possible_score = sum(q.max_score for q in questions)\<close>. The built-in
  \<^verbatim>\<open>sum\<close> is the interpreter's and is the argument \<open>py_sum\<close>: up to CPython 3.11 it adds
  the floats from left to right, from 3.12 on it also compensates their rounding errors.
\<close>

definition max_possible_score :: "('f list \<Rightarrow> 'f) \<Rightarrow> 'f question list \<Rightarrow> 'f" where
  "max_possible_score py_sum qs = py_sum (map max_score qs)"

text \<open>
  The body of the \<^verbatim>\<open>try\<close> block. Line 152 prints the payload and line 178 the answer
  data. The test paper is looked up by identifier and the questions by their foreign key;
  either being absent returns None at once. The maximum and the percentage of lines 182
  and 238 to 243 are computed and printed only: they raise nothing and are left out. The
  new Result holds the raw total and the answer data that was graded (stored through
  \<^verbatim>\<open>json.dumps\<close> and read back through \<^verbatim>\<open>json.loads\<close>, which returns the JSON value
  it was given).
\<close>

definition submit_body ::
    "(pyval \<Rightarrow> bool) \<Rightarrow> ('f::{plus,zero}) db \<Rightarrow> int \<Rightarrow> int \<Rightarrow> pyval
       \<Rightarrow> exn + ('f db \<times> 'f result option)" where
  "submit_body out d uid tpid payload =
     (if \<not> out payload then Inl UnicodeEncodeError
      else if tpid \<notin> set (test_papers d) then Inr (d, None)
      else
        let qs = filter (\<lambda>q. test_paper_id q = tpid) (questions d) in
        if qs = [] then Inr (d, None)
        else
          let answer_data = normalize_answers payload in
          if \<not> out answer_data then Inl UnicodeEncodeError
          else
            case score_loop out answer_data qs 0 of
              Inl e \<Rightarrow> Inl e
            | Inr total_score \<Rightarrow>
                let new_result = \<lparr>user_id = uid, result_test_paper_id = tpid,
                                   final_score = total_score, user_answers = answer_data\<rparr>
                in Inr (d\<lparr>results := results d @ [new_result]\<rparr>, Some new_result))"

text \<open>
  The function itself: \<^verbatim>\<open>except Exception\<close> rolls the session back, which leaves the
  store as it was, and returns None.
\<close>

definition submit_test_and_calculate_score ::
    "(pyval \<Rightarrow> bool) \<Rightarrow> ('f::{plus,zero}) db \<Rightarrow> int \<Rightarrow> int \<Rightarrow> pyval
       \<Rightarrow> 'f db \<times> 'f result option" where
  "submit_test_and_calculate_score out d uid tpid payload =
     (case submit_body out d uid tpid payload of
        Inl e \<Rightarrow> (d, None)
      | Inr r \<Rightarrow> r)"

text \<open>
  The two routes that call the function. \<^verbatim>\<open>submit_test\<close> of \<^verbatim>\<open>results.py\<close> raises 403
  when its check fails and 404 when the function returns None; the schema makes the
  answers of a submission a dict. \<^verbatim>\<open>submit_test\<close> of \<^verbatim>\<open>test_papers.py\<close> prints the
  body, which is a dict, raises 404 when \<^verbatim>\<open>get_test_paper_by_id\<close> finds no test paper,
  and grades for the current user; the 500 it raises when the function returns None is
  caught by its own \<^verbatim>\<open>except Exception\<close> and raised again as 500. An exception that a
  handler does not catch is the server's to report. What the framework does with the
  returned Result is not modelled.
\<close>

datatype user_role = USER | ADMIN


definition submit_test_check :: "user_role \<Rightarrow> int \<Rightarrow> int \<Rightarrow> bool" where
  "submit_test_check role current_id submission_user_id =
     (\<not> (submission_user_id \<noteq> current_id \<and> role \<noteq> ADMIN))"



section \<open>The token codec\<close>

text \<open>
  \<^verbatim>\<open>app/utils/jwt_utils.py\<close> reads three settings from the environment when it is loaded.
\<close>

record settings =
  SECRET_KEY :: string
  ALGORITHM :: string
  ACCESS_TOKEN_EXPIRE_MINUTES :: int

text \<open>
  \<^verbatim>\<open>int(v)\<close>, which the package applies to the time claims of a token: an int is itself,
  a bool is 0 or 1, a finite float is cut towards zero, an infinity raises OverflowError,
  a not-a-number raises ValueError, and None, a list or a dict raise TypeError. A string
  is converted by the interpreter's grammar of integer literals, the argument \<open>conv\<close>:
  \<open>conv s\<close> is the number, or None where \<^verbatim>\<open>int\<close> raises ValueError.
\<close>

fun py_int :: "(pystr \<Rightarrow> int option) \<Rightarrow> pyval \<Rightarrow> exn + int" where
  "py_int conv (PInt i) = Inr i"
| "py_int conv (PBool b) = Inr (if b then 1 else 0)"
| "py_int conv (PFloat x) = Inr (if 0 \<le> x then \<lfloor>x\<rfloor> else \<lceil>x\<rceil>)"
| "py_int conv PInf = Inl OverflowError"
| "py_int conv PNaN = Inl ValueError"
| "py_int conv (PStr s) = (case conv s of None \<Rightarrow> Inl ValueError | Some i \<Rightarrow> Inr i)"
| "py_int conv _ = Inl TypeError"

text \<open>
  Modelled from the spec: the functions \<^verbatim>\<open>jwt.encode\<close> and \<^verbatim>\<open>jwt.decode\<close> of the
  third-party package \<^verbatim>\<open>python-jose\<close>, which \<^verbatim>\<open>jwt_utils.py\<close> calls and which is not
  part of the sources. Section 4.2 of the specification says that a token carries the
  claims, is signed with the secret key, and is rejected on a signature mismatch, on a
  malformed encoding and on an expiry in the past. The model is symbolic: a well-formed
  token is its algorithm name, its claims and its signature; the signature that a key
  produces over an algorithm name and claims is the term \<open>Mac\<close> of the three, different
  from every other signature; a string that is no well-formed token is \<open>Malformed\<close>.
  Times are whole seconds since the epoch.

  Where the specification is silent the model follows the package. The package reads the
  header of a token with \<^verbatim>\<open>json.loads\<close> and converts a ValueError of it only, so a
  header that nests deeper than the recursion limit of the interpreter, the token
  \<open>Deep_header\<close>, ends in a RecursionError. After the signature it checks the registered
  claims in the order \<^verbatim>\<open>iat\<close>, \<^verbatim>\<open>nbf\<close>, \<^verbatim>\<open>exp\<close>, \<^verbatim>\<open>aud\<close>, \<^verbatim>\<open>sub\<close>, \<^verbatim>\<open>jti\<close>,
  \<^verbatim>\<open>at_hash\<close>: a time claim goes through \<^verbatim>\<open>int\<close>, of which a ValueError becomes
  JWTClaimsError and any other exception is passed on; \<^verbatim>\<open>nbf\<close> must not lie in the
  future and \<^verbatim>\<open>exp\<close> not in the past; \<^verbatim>\<open>sub\<close> and \<^verbatim>\<open>jti\<close> must be strings; and
  \<^verbatim>\<open>aud\<close> and \<^verbatim>\<open>at_hash\<close> are refused, because \<^verbatim>\<open>verify_token\<close> passes neither an
  audience nor an access token; \<^verbatim>\<open>iss\<close> is not checked, because it passes no issuer.
\<close>

datatype signature =
    Mac string string pydict
  | Other string

datatype token =
    Jws string pydict signature
  | Deep_header
  | Malformed string

definition jwt_encode :: "pydict \<Rightarrow> string \<Rightarrow> string \<Rightarrow> token" where
  "jwt_encode claims key algorithm = Jws algorithm claims (Mac key algorithm claims)"

definition read_time_claim :: "(pystr \<Rightarrow> int option) \<Rightarrow> pydict \<Rightarrow> string \<Rightarrow> exn + int option" where
  "read_time_claim conv claims name =
     (case map_of claims name of
        None \<Rightarrow> Inr None
      | Some v \<Rightarrow>
          (case py_int conv v of
             Inl e \<Rightarrow> if e = ValueError then Inl JWTClaimsError else Inl e
           | Inr n \<Rightarrow> Inr (Some n)))"

fun is_str_or_absent :: "pyval option \<Rightarrow> bool" where
  "is_str_or_absent None = True"
| "is_str_or_absent (Some (PStr s)) = True"
| "is_str_or_absent (Some _) = False"

definition validate_claims :: "(pystr \<Rightarrow> int option) \<Rightarrow> pydict \<Rightarrow> int \<Rightarrow> exn + unit" where
  "validate_claims conv claims now =
     (case read_time_claim conv claims ''iat'' of
        Inl e \<Rightarrow> Inl e
      | Inr iat \<Rightarrow>
     (case read_time_claim conv claims ''nbf'' of
        Inl e \<Rightarrow> Inl e
      | Inr nbf \<Rightarrow>
          if (case nbf of None \<Rightarrow> False | Some n \<Rightarrow> now < n) then Inl JWTClaimsError
          else
     (case read_time_claim conv claims ''exp'' of
        Inl e \<Rightarrow> Inl e
      | Inr expiry \<Rightarrow>
          if (case expiry of None \<Rightarrow> False | Some n \<Rightarrow> n < now) then Inl ExpiredSignatureError
          else if map_of claims ''aud'' \<noteq> None then Inl JWTClaimsError
          else if \<not> is_str_or_absent (map_of claims ''sub'') then Inl JWTClaimsError
          else if \<not> is_str_or_absent (map_of claims ''jti'') then Inl JWTClaimsError
          else if map_of claims ''at_hash'' \<noteq> None then Inl JWTClaimsError
          else Inr ())))"

fun jwt_decode ::
    "(pystr \<Rightarrow> int option) \<Rightarrow> token \<Rightarrow> string \<Rightarrow> string list \<Rightarrow> int \<Rightarrow> exn + pydict" where
  "jwt_decode conv (Malformed s) key algorithms now = Inl JWTError"
| "jwt_decode conv Deep_header key algorithms now = Inl RecursionError"
| "jwt_decode conv (Jws alg claims sg) key algorithms now =
     (if alg \<notin> set algorithms then Inl JWTError
      else if sg \<noteq> Mac key alg claims then Inl JWTError
      else case validate_claims conv claims now of
             Inl e \<Rightarrow> Inl e
           | Inr ok \<Rightarrow> Inr claims)"

text \<open>
  \<^verbatim>\<open>except jwt.JWTError\<close> catches the class and its subclasses; the package derives
  ExpiredSignatureError and JWTClaimsError from JWTError.
\<close>

fun is_JWTError :: "exn \<Rightarrow> bool" where
  "is_JWTError JWTError = True"
| "is_JWTError ExpiredSignatureError = True"
| "is_JWTError JWTClaimsError = True"
| "is_JWTError _ = False"

text \<open>
  Python passes a dict by reference, so \<^verbatim>\<open>create_access_token\<close> works on an object store:
  a list of dicts, the address of a dict being its position. \<^verbatim>\<open>data.copy()\<close> allocates a
  new dict with the entries of the old one; \<^verbatim>\<open>to_encode.update(...)\<close> writes into the dict
  at the address it is called on, replacing the value of a key that is present and
  appending a key that is not.
\<close>

type_synonym heap = "pydict list"

definition dict_copy :: "heap \<Rightarrow> nat \<Rightarrow> heap \<times> nat" where
  "dict_copy h a = (h @ [h ! a], length h)"

definition dict_update :: "heap \<Rightarrow> nat \<Rightarrow> pydict \<Rightarrow> heap" where
  "dict_update h a other = h[a := foldl (\<lambda>d (k, v). AList.update k v d) (h ! a) other]"

text \<open>
  \<^verbatim>\<open>create_access_token\<close>, lines 25 to 35. \<open>now\<close> is what \<^verbatim>\<open>datetime.utcnow()\<close> returns and
  \<open>expires_delta\<close> is a number of seconds, or None; a timedelta of zero is false in
  Python, so it takes the default branch as None does.
\<close>

definition create_access_token :: "settings \<Rightarrow> int \<Rightarrow> heap \<Rightarrow> nat \<Rightarrow> int option \<Rightarrow> heap \<times> token" where
  "create_access_token cfg now h data expires_delta =
     (let (h1, to_encode) = dict_copy h data;
          expire = (case expires_delta of
                      Some delta \<Rightarrow> if delta \<noteq> 0 then now + delta
                                    else now + 60 * ACCESS_TOKEN_EXPIRE_MINUTES cfg
                    | None \<Rightarrow> now + 60 * ACCESS_TOKEN_EXPIRE_MINUTES cfg);
          h2 = dict_update h1 to_encode [(''exp'', PInt expire)];
          encoded_jwt = jwt_encode (h2 ! to_encode) (SECRET_KEY cfg) (ALGORITHM cfg)
      in (h2, encoded_jwt))"

text \<open>\<^verbatim>\<open>verify_token\<close>, lines 47 to 51; an exception other than JWTError is not caught.\<close>

definition verify_token ::
    "(pystr \<Rightarrow> int option) \<Rightarrow> settings \<Rightarrow> int \<Rightarrow> token \<Rightarrow> exn + pydict option" where
  "verify_token conv cfg now tok =
     (case jwt_decode conv tok (SECRET_KEY cfg) [ALGORITHM cfg] now of
        Inr payload \<Rightarrow> Inr (Some payload)
      | Inl e \<Rightarrow> if is_JWTError e then Inr None else Inl e)"





section \<open>The access checks of the routes\<close>

text \<open>
  Each check below is true when the route goes on and false when it raises 403. The first
  argument is the role of the current user (\<^verbatim>\<open>UserRole\<close> of \<^verbatim>\<open>app/db/models.py\<close>) and
  the second the identifier of the current user; the third is the identifier of the
  account the resource belongs to. \<open>submit_test_check\<close> above is line 35 of
  \<^verbatim>\<open>results.py\<close>; \<^verbatim>\<open>get_result\<close> is its line 108.
\<close>

definition get_result_check :: "user_role \<Rightarrow> int \<Rightarrow> int \<Rightarrow> bool" where
  "get_result_check role current_id result_user_id =
     (\<not> (result_user_id \<noteq> current_id \<and> role \<noteq> ADMIN))"

text \<open>\<^verbatim>\<open>auth.py\<close>, \<^verbatim>\<open>get_user_by_id_endpoint\<close>, line 214, and \<^verbatim>\<open>update_user\<close>, line 251.\<close>

definition get_user_by_id_endpoint_check :: "user_role \<Rightarrow> int \<Rightarrow> int \<Rightarrow> bool" where
  "get_user_by_id_endpoint_check role current_id uid =
     (\<not> (role \<noteq> ADMIN \<and> current_id \<noteq> uid))"

definition update_user_check :: "user_role \<Rightarrow> int \<Rightarrow> int \<Rightarrow> bool" where
  "update_user_check role current_id uid =
     (\<not> (role \<noteq> ADMIN \<and> current_id \<noteq> uid))"

text \<open>\<^verbatim>\<open>auth.py\<close>, \<^verbatim>\<open>get_current_admin\<close>, line 80: the dependency of every admin-only route.\<close>

definition get_current_admin :: "user_role \<Rightarrow> bool" where
  "get_current_admin role = (\<not> (role \<noteq> ADMIN))"

text \<open>
  \<^verbatim>\<open>auth.py\<close>, \<^verbatim>\<open>get_current_user\<close>, lines 19 to 64: the dependency of the routes that ask
  for a logged-in user only. It looks the user of the token up and makes no difference
  between the roles.
\<close>

definition get_current_user :: "user_role \<Rightarrow> bool" where
  "get_current_user role = True"

text \<open>
  The operations behind a login, named after their handlers. Four are open to the owner
  of the resource and to an administrator; eleven depend on \<^verbatim>\<open>get_current_admin\<close>, among
  them \<^verbatim>\<open>get_user_results\<close>, which reads the results of the user whose identifier is in
  the path; seven depend on \<^verbatim>\<open>get_current_user\<close> alone. Of these seven,
  \<^verbatim>\<open>get_user_profile\<close>, \<^verbatim>\<open>get_my_results\<close> and \<^verbatim>\<open>submit_test\<close> of \<^verbatim>\<open>test_papers.py\<close>
  act on the account of the current user, and the reads of questions and test papers on
  rows that belong to no account. Registration and login need no token and are not
  listed.
\<close>

datatype operation =
    SubmitTest
  | GetResult
  | GetUserById
  | UpdateUser
  | GetUserResults
  | GetTestPaperResults
  | DeleteResult
  | GetAdminProfile
  | AdminCreateUser
  | CreateQuestion
  | UpdateQuestion
  | DeleteQuestion
  | CreateTestPaper
  | UpdateTestPaper
  | DeleteTestPaper
  | GetUserProfile
  | GetMyResults
  | SubmitTestPaper
  | GetQuestions
  | GetQuestion
  | GetTestPapers
  | GetTestPaper

fun can_access :: "user_role \<Rightarrow> int \<Rightarrow> int \<Rightarrow> operation \<Rightarrow> bool" where
  "can_access role requester owner SubmitTest = submit_test_check role requester owner"
| "can_access role requester owner GetResult = get_result_check role requester owner"
| "can_access role requester owner GetUserById = get_user_by_id_endpoint_check role requester owner"
| "can_access role requester owner UpdateUser = update_user_check role requester owner"
| "can_access role requester owner GetUserResults = get_current_admin role"
| "can_access role requester owner GetTestPaperResults = get_current_admin role"
| "can_access role requester owner DeleteResult = get_current_admin role"
| "can_access role requester owner GetAdminProfile = get_current_admin role"
| "can_access role requester owner AdminCreateUser = get_current_admin role"
| "can_access role requester owner CreateQuestion = get_current_admin role"
| "can_access role requester owner UpdateQuestion = get_current_admin role"
| "can_access role requester owner DeleteQuestion = get_current_admin role"
| "can_access role requester owner CreateTestPaper = get_current_admin role"
| "can_access role requester owner UpdateTestPaper = get_current_admin role"
| "can_access role requester owner DeleteTestPaper = get_current_admin role"
| "can_access role requester owner GetUserProfile = get_current_user role"
| "can_access role requester owner GetMyResults = get_current_user role"
| "can_access role requester owner SubmitTestPaper = get_current_user role"
| "can_access role requester owner GetQuestions = get_current_user role"
| "can_access role requester owner GetQuestion = get_current_user role"
| "can_access role requester owner GetTestPapers = get_current_user role"
| "can_access role requester owner GetTestPaper = get_current_user role"

text \<open>
  The policy as section 4.3 of the specification words it, for comparison: an
  administrator is allowed everything, a standard user what is self-permitted on the
  user's own resource, and nothing else. Self-permitted are reading one's own profile and
  results, updating one's own profile and submitting one's own test attempt.
\<close>

fun spec_self_permitted :: "operation \<Rightarrow> bool" where
  "spec_self_permitted GetUserById = True"
| "spec_self_permitted GetUserProfile = True"
| "spec_self_permitted GetResult = True"
| "spec_self_permitted GetUserResults = True"
| "spec_self_permitted GetMyResults = True"
| "spec_self_permitted UpdateUser = True"
| "spec_self_permitted SubmitTest = True"
| "spec_self_permitted SubmitTestPaper = True"
| "spec_self_permitted _ = False"

definition spec_can_access :: "user_role \<Rightarrow> int \<Rightarrow> int \<Rightarrow> operation \<Rightarrow> bool" where
  "spec_can_access role requester owner op =
     (role = ADMIN \<or> (requester = owner \<and> spec_self_permitted op))"

section \<open>Facts used below\<close>


lemma last_str_nat: "last (str_nat n) = digit_char (n mod 10)"
  by (subst str_nat.simps) simp

lemma str_nat_not_empty: "str_nat n \<noteq> []"
  by (subst str_nat.simps) simp

lemma digit_char_not_s: "d < 10 \<Longrightarrow> digit_char d \<noteq> CHR ''s''"
proof
  assume d: "d < 10" and e: "digit_char d = CHR ''s''"
  then have "of_char (char_of (48 + d) :: char) = (of_char (CHR ''s'') :: nat)"
    by (simp add: digit_char_def)
  then show False using d by simp
qed

lemma question_key_not_wrapper: "str_int i \<noteq> ''user_answers''"
proof
  assume "str_int i = ''user_answers''"
  then have "last (str_int i) = CHR ''s''" by simp
  moreover have "last (str_int i) = digit_char (nat \<bar>i\<bar> mod 10)"
    by (simp add: str_int_def last_str_nat str_nat_not_empty)
  ultimately show False using digit_char_not_s[of "nat \<bar>i\<bar> mod 10"] by simp
qed

lemma score_loop_dict_step:
  "score_loop out (PDict m) (q # qs) t =
     (case map_of m (str_int (qid q)) of
        None \<Rightarrow> score_loop out (PDict m) qs t
      | Some v \<Rightarrow>
          if \<not> out v \<or> \<not> out (options q) then Inl UnicodeEncodeError
          else score_loop out (PDict m) qs
                 (if truthy (options q) \<and> py_eq_index v (correct_option_index q)
                  then t + max_score q else t))"
  by (simp split: option.splits)

lemma score_loop_dict_fold:
  "score_loop out (PDict m) qs t = Inr s \<Longrightarrow>
     s = foldl (\<lambda>total_score q.
                  case map_of m (str_int (qid q)) of
                    None \<Rightarrow> total_score
                  | Some v \<Rightarrow>
                      if truthy (options q) \<and> py_eq_index v (correct_option_index q)
                      then total_score + max_score q else total_score) t qs"
proof (induction qs arbitrary: t)
  case Nil
  then show ?case by simp
next
  case (Cons q qs)
  show ?case
  proof (cases "map_of m (str_int (qid q))")
    case None
    with Cons.prems have "score_loop out (PDict m) qs t = Inr s"
      by (simp add: score_loop_dict_step del: score_loop.simps)
    from Cons.IH[OF this] None show ?thesis by simp
  next
    case (Some v)
    show ?thesis
    proof (cases "truthy (options q) \<and> py_eq_index v (correct_option_index q)")
      case True
      with Some Cons.prems have "score_loop out (PDict m) qs (t + max_score q) = Inr s"
        by (simp add: score_loop_dict_step del: score_loop.simps split: if_splits)
      from Cons.IH[OF this] Some True show ?thesis by auto
    next
      case False
      with Some Cons.prems have "score_loop out (PDict m) qs t = Inr s"
        by (simp add: score_loop_dict_step del: score_loop.simps split: if_splits)
      from Cons.IH[OF this] Some False show ?thesis by auto
    qed
  qed
qed



lemma py_eq_index_Some:
  "py_eq_index v (Some i) \<longleftrightarrow>
     v = PInt i \<or> v = PFloat (of_int i) \<or> (v = PBool True \<and> i = 1) \<or> (v = PBool False \<and> i = 0)"
  by (cases v) auto

lemma score_loop_bounds:
  fixes t u s :: "'f::{plus,zero,ord}"
  assumes nonneg: "\<And>a w :: 'f. 0 \<le> a \<Longrightarrow> 0 \<le> w \<Longrightarrow> 0 \<le> a + w"
    and mono: "\<And>a b w :: 'f. 0 \<le> a \<Longrightarrow> a \<le> b \<Longrightarrow> 0 \<le> w \<Longrightarrow> a + w \<le> b + w"
    and grow: "\<And>a b w :: 'f. 0 \<le> a \<Longrightarrow> a \<le> b \<Longrightarrow> 0 \<le> w \<Longrightarrow> a \<le> b + w"
  shows "\<forall>q\<in>set qs. 0 \<le> max_score q \<Longrightarrow> score_loop out ad qs t = Inr s \<Longrightarrow>
         0 \<le> t \<Longrightarrow> t \<le> u \<Longrightarrow> 0 \<le> s \<and> s \<le> foldl (+) u (map max_score qs)"
proof (induction qs arbitrary: t u)
  case Nil
  then show ?case by simp
next
  case (Cons q qs)
  have w: "0 \<le> max_score q" and rest: "\<forall>q\<in>set qs. 0 \<le> max_score q"
    using Cons.prems(1) by simp_all
  from Cons.prems(2) consider
      (skip) "score_loop out ad qs t = Inr s"
    | (add) "score_loop out ad qs (t + max_score q) = Inr s"
    by (auto split: sum.splits bool.splits if_splits)
  then show ?case
  proof cases
    case skip
    have "t \<le> u + max_score q" using grow[OF Cons.prems(3) Cons.prems(4) w] .
    from Cons.IH[OF rest skip Cons.prems(3) this] show ?thesis by simp
  next
    case add
    have a: "0 \<le> t + max_score q" using nonneg[OF Cons.prems(3) w] .
    have b: "t + max_score q \<le> u + max_score q" using mono[OF Cons.prems(3) Cons.prems(4) w] .
    from Cons.IH[OF rest add a b] show ?thesis by simp
  qed
qed



lemma submit_result:
  assumes "submit_test_and_calculate_score out d uid tpid payload = (d', Some r)"
  shows "score_loop out (normalize_answers payload)
           (filter (\<lambda>q. test_paper_id q = tpid) (questions d)) 0 = Inr (final_score r)
         \<and> d' = d\<lparr>results := results d @ [r]\<rparr>
         \<and> user_id r = uid \<and> result_test_paper_id r = tpid
         \<and> user_answers r = normalize_answers payload"
  using assms
  by (auto simp add: submit_test_and_calculate_score_def submit_body_def Let_def
      split: if_splits sum.splits)


lemma create_access_token_eq:
  "create_access_token cfg now h data expires_delta =
     (let expire = (case expires_delta of
                      Some delta \<Rightarrow> if delta \<noteq> 0 then now + delta
                                    else now + 60 * ACCESS_TOKEN_EXPIRE_MINUTES cfg
                    | None \<Rightarrow> now + 60 * ACCESS_TOKEN_EXPIRE_MINUTES cfg);
          claims = AList.update ''exp'' (PInt expire) (h ! data)
      in (h @ [claims], Jws (ALGORITHM cfg) claims (Mac (SECRET_KEY cfg) (ALGORITHM cfg) claims)))"
  by (simp add: create_access_token_def dict_copy_def dict_update_def jwt_encode_def Let_def)






section \<open>The claims\<close>

subsection \<open>C1: the total that is computed\<close>

text \<open>
  C1, as the code has it. Whenever the call returns a Result for a payload that
  normalizes to the answer mapping \<open>m\<close>, the score of the Result is what the loop builds
  from \<^verbatim>\<open>0.0\<close> over the questions of the test paper in their order: a question whose
  key has an entry in \<open>m\<close>, whose options are truthy (a valid index into the options
  needs a non-empty list, which is truthy, as is the string it is stored as) and whose
  answer compares equal to its correct index under Python's \<^verbatim>\<open>==\<close> adds its
  \<open>max_score\<close> to the running total, by the addition of doubles; every other question,
  answered otherwise or not at all, leaves the running total as it is. An answer
  compares equal to the index \<open>i\<close> when it is the int \<open>i\<close>, a float of the value
  \<open>i\<close>, True for \<open>i = 1\<close> or False for \<open>i = 0\<close>, and in no other case.
\<close>

theorem computed_total:
  assumes "submit_test_and_calculate_score out d uid tpid payload = (d', Some r)"
    and "normalize_answers payload = PDict m"
  shows "final_score r =
           foldl (\<lambda>total_score q.
                    case map_of m (str_int (qid q)) of
                      None \<Rightarrow> total_score
                    | Some v \<Rightarrow>
                        if truthy (options q) \<and> py_eq_index v (correct_option_index q)
                        then total_score + max_score q else total_score)
             0 (filter (\<lambda>q. test_paper_id q = tpid) (questions d))
         \<and> (\<forall>v i. py_eq_index v (Some i) \<longleftrightarrow>
                v = PInt i \<or> v = PFloat (of_int i) \<or> (v = PBool True \<and> i = 1)
                  \<or> (v = PBool False \<and> i = 0))"
proof -
  from submit_result[OF assms(1)] assms(2) have
    "score_loop out (PDict m) (filter (\<lambda>q. test_paper_id q = tpid) (questions d)) 0
       = Inr (final_score r)" by simp
  from score_loop_dict_fold[OF this] py_eq_index_Some show ?thesis by blast
qed

theorem computed_total_witness:
  "submit_test_and_calculate_score utf8_stdout
       \<lparr>test_papers = [1],
         questions = [\<lparr>qid = 1, max_score = 1::real, options = PList [PStr [97], PStr [98]],
           correct_option_index = Some 0, test_paper_id = 1\<rparr>,
                      \<lparr>qid = 2, max_score = 2, options = PList [PStr [97], PStr [98]],
           correct_option_index = Some 1, test_paper_id = 1\<rparr>],
         results = []\<rparr>
       5 1 (PDict [(''1'', PInt 0), (''2'', PInt 0)])
     = (\<lparr>test_papers = [1],
         questions = [\<lparr>qid = 1, max_score = 1, options = PList [PStr [97], PStr [98]],
           correct_option_index = Some 0, test_paper_id = 1\<rparr>,
                      \<lparr>qid = 2, max_score = 2, options = PList [PStr [97], PStr [98]],
           correct_option_index = Some 1, test_paper_id = 1\<rparr>],
         results = [\<lparr>user_id = 5, result_test_paper_id = 1, final_score = 1,
           user_answers = PDict [(''1'', PInt 0), (''2'', PInt 0)]\<rparr>]\<rparr>,
        Some \<lparr>user_id = 5, result_test_paper_id = 1, final_score = 1,
           user_answers = PDict [(''1'', PInt 0), (''2'', PInt 0)]\<rparr>)
   \<and> normalize_answers (PDict [(''1'', PInt 0), (''2'', PInt 0)]) = PDict [(''1'', PInt 0), (''2'', PInt 0)]
   \<and> (1::real) =
        foldl (\<lambda>total_score q.
                    case map_of [(''1'', PInt 0), (''2'', PInt 0)] (str_int (qid q)) of
                      None \<Rightarrow> total_score
                    | Some v \<Rightarrow>
                        if truthy (options q) \<and> py_eq_index v (correct_option_index q)
                        then total_score + max_score q else total_score)
          0 [\<lparr>qid = 1, max_score = 1, options = PList [PStr [97], PStr [98]],
           correct_option_index = Some 0, test_paper_id = 1\<rparr>,
             \<lparr>qid = 2, max_score = 2, options = PList [PStr [97], PStr [98]],
           correct_option_index = Some 1, test_paper_id = 1\<rparr>]"
proof -
  have run: "submit_test_and_calculate_score utf8_stdout
       \<lparr>test_papers = [1],
         questions = [\<lparr>qid = 1, max_score = 1::real, options = PList [PStr [97], PStr [98]],
           correct_option_index = Some 0, test_paper_id = 1\<rparr>,
                      \<lparr>qid = 2, max_score = 2, options = PList [PStr [97], PStr [98]],
           correct_option_index = Some 1, test_paper_id = 1\<rparr>],
         results = []\<rparr>
       5 1 (PDict [(''1'', PInt 0), (''2'', PInt 0)])
     = (\<lparr>test_papers = [1],
         questions = [\<lparr>qid = 1, max_score = 1, options = PList [PStr [97], PStr [98]],
           correct_option_index = Some 0, test_paper_id = 1\<rparr>,
                      \<lparr>qid = 2, max_score = 2, options = PList [PStr [97], PStr [98]],
           correct_option_index = Some 1, test_paper_id = 1\<rparr>],
         results = [\<lparr>user_id = 5, result_test_paper_id = 1, final_score = 1,
           user_answers = PDict [(''1'', PInt 0), (''2'', PInt 0)]\<rparr>]\<rparr>,
        Some \<lparr>user_id = 5, result_test_paper_id = 1, final_score = 1,
           user_answers = PDict [(''1'', PInt 0), (''2'', PInt 0)]\<rparr>)"
    by code_simp
  have norm: "normalize_answers (PDict [(''1'', PInt 0), (''2'', PInt 0)]) = PDict [(''1'', PInt 0), (''2'', PInt 0)]"
    by (simp add: normalize_answers_def)
  from computed_total[OF run norm] run norm show ?thesis by simp
qed

text \<open>
  C1 as it is written fails: the answer \<^verbatim>\<open>{"1": true}\<close> is not the index 1, yet the
  question with correct index 1 and \<open>max_score\<close> 2 is graded as correct and the Result has
  the score 2.
\<close>

theorem strict_equality_counterexample:
  "PBool True \<noteq> PInt 1
   \<and> map_option final_score
        (snd (submit_test_and_calculate_score utf8_stdout
           \<lparr>test_papers = [1],
         questions = [\<lparr>qid = 1, max_score = 2::real, options = PList [PStr [97], PStr [98]],
           correct_option_index = Some 1, test_paper_id = 1\<rparr>],
         results = []\<rparr>
           5 1 (PDict [(''1'', PBool True)]))) = Some 2"
  by code_simp

subsection \<open>C2: issuing and verifying a token\<close>




subsection \<open>C3: who may do what\<close>

text \<open>
  C3, as the code has it. The checks of the routes let an administrator through on
  every operation. They let a standard user through on the seven operations that ask for
  a login only, whoever the owner argument is, and on the four operations open to
  owners (submitting a test through \<^verbatim>\<open>/results/submit\<close>, reading a result, reading a
  profile, updating a profile) exactly when the user is the owner; on the admin-only
  operations, reading the results of a user by the user's identifier among them, they
  refuse a standard user, the owner too.
\<close>

theorem access_policy:
  "can_access ADMIN requester owner op
   \<and> (can_access USER requester owner op \<longleftrightarrow>
        op \<in> {GetUserProfile, GetMyResults, SubmitTestPaper, GetQuestions, GetQuestion,
               GetTestPapers, GetTestPaper}
        \<or> (op \<in> {SubmitTest, GetResult, GetUserById, UpdateUser} \<and> requester = owner))"
  by (cases op)
     (auto simp add: submit_test_check_def get_result_check_def get_user_by_id_endpoint_check_def
        update_user_check_def get_current_admin_def get_current_user_def)

theorem access_policy_witness:
  "can_access ADMIN 1 2 DeleteResult \<and> can_access USER 3 3 GetResult
   \<and> \<not> can_access USER 3 4 GetResult \<and> \<not> can_access USER 3 3 DeleteResult
   \<and> can_access USER 3 4 GetTestPaper"
  using access_policy[of 1 2 DeleteResult] access_policy[of 3 3 GetResult]
    access_policy[of 3 4 GetResult] access_policy[of 3 3 DeleteResult]
    access_policy[of 3 4 GetTestPaper]
  by simp

text \<open>
  C3 as it is written fails both ways. The policy of the specification lets user 3 read
  the results of user 3, and the route \<^verbatim>\<open>get_user_results\<close> refuses; it denies user 3
  the reading of a question whatever account is named as owner, and the route
  \<^verbatim>\<open>get_question\<close> allows it.
\<close>

theorem policy_counterexample:
  "spec_can_access USER 3 3 GetUserResults \<and> \<not> can_access USER 3 3 GetUserResults
   \<and> \<not> spec_can_access USER 3 4 GetQuestion \<and> can_access USER 3 4 GetQuestion"
  by (simp add: spec_can_access_def get_current_admin_def get_current_user_def)

subsection \<open>C5: grading a malformed payload\<close>




subsection \<open>C6: nothing to grade, and nothing answered\<close>




subsection \<open>C7: the wrapper key\<close>

text \<open>
  C7. For every answer mapping \<open>m\<close> that does not itself have the wrapper key among its
  keys, the payload that nests \<open>m\<close> under \<^verbatim>\<open>user_answers\<close> normalizes to the same answer
  data as \<open>m\<close> does, and that is \<open>m\<close> itself, values untouched. The keys of an answer
  mapping are question identifiers as strings, and none of those is the wrapper key
  (\<open>question_key_not_wrapper\<close>).
\<close>

theorem wrapper_key_normalization:
  assumes "''user_answers'' \<notin> fst ` set m"
  shows "normalize_answers (PDict [(''user_answers'', PDict m)]) = normalize_answers (PDict m)
         \<and> normalize_answers (PDict m) = PDict m"
proof -
  from assms have "map_of m ''user_answers'' = None"
    by (simp add: map_of_eq_None_iff)
  then show ?thesis by (simp add: normalize_answers_def)
qed

theorem wrapper_key_normalization_witness:
  "''user_answers'' \<notin> fst ` set [(''1'', PInt 1), (''2'', PStr [98])]
   \<and> normalize_answers (PDict [(''user_answers'', PDict [(''1'', PInt 1), (''2'', PStr [98])])])
       = PDict [(''1'', PInt 1), (''2'', PStr [98])]
   \<and> normalize_answers (PDict [(''1'', PInt 1), (''2'', PStr [98])])
       = PDict [(''1'', PInt 1), (''2'', PStr [98])]"
  using wrapper_key_normalization[of "[(''1'', PInt 1), (''2'', PStr [98])]"]
  by simp

subsection \<open>C8: the range of the total\<close>

text \<open>
  C8, as the code has it. Let the addition and the order of the doubles have three
  properties that IEEE 754 gives them on numbers that are not negative: the sum of two
  is not negative; adding the same number to both sides keeps an inequality; and a
  number does not exceed a larger one to which something was added. When no question of
  the test paper has a negative \<open>max_score\<close>, the score of every Result the call returns
  is not negative, and it does not exceed \<open>max_possible_score\<close> when \<^verbatim>\<open>sum\<close> adds the
  scores from left to right, as it does up to CPython 3.11.
\<close>

theorem score_within_bounds:
  fixes d :: "('f::{plus,zero,ord}) db"
  assumes "\<forall>a w :: 'f. 0 \<le> a \<longrightarrow> 0 \<le> w \<longrightarrow> 0 \<le> a + w"
    and "\<forall>a b w :: 'f. 0 \<le> a \<longrightarrow> a \<le> b \<longrightarrow> 0 \<le> w \<longrightarrow> a + w \<le> b + w"
    and "\<forall>a b w :: 'f. 0 \<le> a \<longrightarrow> a \<le> b \<longrightarrow> 0 \<le> w \<longrightarrow> a \<le> b + w"
    and "(0::'f) \<le> 0"
    and "submit_test_and_calculate_score out d uid tpid payload = (d', Some r)"
    and "\<forall>q \<in> set (filter (\<lambda>q. test_paper_id q = tpid) (questions d)). 0 \<le> max_score q"
  shows "0 \<le> final_score r
         \<and> (py_sum (map max_score (filter (\<lambda>q. test_paper_id q = tpid) (questions d)))
               = foldl (+) 0 (map max_score (filter (\<lambda>q. test_paper_id q = tpid) (questions d)))
            \<longrightarrow> final_score r
                  \<le> max_possible_score py_sum (filter (\<lambda>q. test_paper_id q = tpid) (questions d)))"
proof -
  have run: "score_loop out (normalize_answers payload) (filter (\<lambda>q. test_paper_id q = tpid) (questions d)) 0
               = Inr (final_score r)"
    using submit_result[OF assms(5)] by simp
  have nonneg: "\<And>a w :: 'f. 0 \<le> a \<Longrightarrow> 0 \<le> w \<Longrightarrow> 0 \<le> a + w"
    using assms(1) by blast
  have mono: "\<And>a b w :: 'f. 0 \<le> a \<Longrightarrow> a \<le> b \<Longrightarrow> 0 \<le> w \<Longrightarrow> a + w \<le> b + w"
    using assms(2) by blast
  have grow: "\<And>a b w :: 'f. 0 \<le> a \<Longrightarrow> a \<le> b \<Longrightarrow> 0 \<le> w \<Longrightarrow> a \<le> b + w"
    using assms(3) by blast
  have "0 \<le> final_score r
        \<and> final_score r \<le> foldl (+) 0 (map max_score (filter (\<lambda>q. test_paper_id q = tpid) (questions d)))"
    by (rule score_loop_bounds[OF nonneg mono grow assms(6) run assms(4) assms(4)])
  then show ?thesis by (simp add: max_possible_score_def)
qed

theorem score_within_bounds_witness:
  "submit_test_and_calculate_score utf8_stdout
       \<lparr>test_papers = [1],
         questions = [\<lparr>qid = 1, max_score = 2::real, options = PList [PStr [97], PStr [98]],
           correct_option_index = Some 1, test_paper_id = 1\<rparr>],
         results = []\<rparr> 5 1 (PDict [(''1'', PInt 1)])
     = (\<lparr>test_papers = [1],
         questions = [\<lparr>qid = 1, max_score = 2, options = PList [PStr [97], PStr [98]],
           correct_option_index = Some 1, test_paper_id = 1\<rparr>],
         results = [\<lparr>user_id = 5, result_test_paper_id = 1, final_score = 2,
           user_answers = PDict [(''1'', PInt 1)]\<rparr>]\<rparr>,
        Some \<lparr>user_id = 5, result_test_paper_id = 1, final_score = 2,
           user_answers = PDict [(''1'', PInt 1)]\<rparr>)
   \<and> (0::real) \<le> max_score
       \<lparr>qid = 1, max_score = 2::real, options = PList [PStr [97], PStr [98]],
           correct_option_index = Some 1, test_paper_id = 1\<rparr>
   \<and> (0::real) \<le> final_score \<lparr>user_id = 5, result_test_paper_id = 1, final_score = 2,
           user_answers = PDict [(''1'', PInt 1)]\<rparr>
   \<and> final_score \<lparr>user_id = 5, result_test_paper_id = 1, final_score = 2,
           user_answers = PDict [(''1'', PInt 1)]\<rparr>
       \<le> max_possible_score (foldl (+) 0) (filter (\<lambda>q. test_paper_id q = 1) (questions
       \<lparr>test_papers = [1],
         questions = [\<lparr>qid = 1, max_score = 2::real, options = PList [PStr [97], PStr [98]],
           correct_option_index = Some 1, test_paper_id = 1\<rparr>],
         results = []\<rparr>))"
proof -
  have run: "submit_test_and_calculate_score utf8_stdout
       \<lparr>test_papers = [1],
         questions = [\<lparr>qid = 1, max_score = 2::real, options = PList [PStr [97], PStr [98]],
           correct_option_index = Some 1, test_paper_id = 1\<rparr>],
         results = []\<rparr> 5 1 (PDict [(''1'', PInt 1)])
     = (\<lparr>test_papers = [1],
         questions = [\<lparr>qid = 1, max_score = 2, options = PList [PStr [97], PStr [98]],
           correct_option_index = Some 1, test_paper_id = 1\<rparr>],
         results = [\<lparr>user_id = 5, result_test_paper_id = 1, final_score = 2,
           user_answers = PDict [(''1'', PInt 1)]\<rparr>]\<rparr>,
        Some \<lparr>user_id = 5, result_test_paper_id = 1, final_score = 2,
           user_answers = PDict [(''1'', PInt 1)]\<rparr>)"
    by code_simp
  have weights: "\<forall>q \<in> set (filter (\<lambda>q. test_paper_id q = 1) (questions
       \<lparr>test_papers = [1],
         questions = [\<lparr>qid = 1, max_score = 2::real, options = PList [PStr [97], PStr [98]],
           correct_option_index = Some 1, test_paper_id = 1\<rparr>],
         results = []\<rparr>)). 0 \<le> max_score q"
    by simp
  have h1: "\<forall>a w :: real. 0 \<le> a \<longrightarrow> 0 \<le> w \<longrightarrow> 0 \<le> a + w" by simp
  have h2: "\<forall>a b w :: real. 0 \<le> a \<longrightarrow> a \<le> b \<longrightarrow> 0 \<le> w \<longrightarrow> a + w \<le> b + w" by simp
  have h3: "\<forall>a b w :: real. 0 \<le> a \<longrightarrow> a \<le> b \<longrightarrow> 0 \<le> w \<longrightarrow> a \<le> b + w" by simp
  have h4: "(0::real) \<le> 0" by simp
  from score_within_bounds[where py_sum = "foldl (+) 0", OF h1 h2 h3 h4 run weights] run
  show ?thesis by simp
qed

text \<open>
  C8 as it is written fails: nothing keeps \<open>max_score\<close> from being negative, and the right
  answer to a question with \<open>max_score\<close> -1 gives a Result with score -1.
\<close>

theorem negative_weight_counterexample:
  "map_option final_score
        (snd (submit_test_and_calculate_score utf8_stdout
           \<lparr>test_papers = [1],
         questions = [\<lparr>qid = 1, max_score = - 1::real, options = PList [PStr [97], PStr [98]],
           correct_option_index = Some 0, test_paper_id = 1\<rparr>],
         results = []\<rparr>
           5 1 (PDict [(''1'', PInt 0)]))) = Some (- 1)"
  by code_simp

subsection \<open>C9: the caller's claims\<close>

text \<open>
  C9. For every store, every address \<open>data\<close> of a dict in it and every
  \<open>expires_delta\<close>, the dict at \<open>data\<close> is after \<^verbatim>\<open>create_access_token\<close> what it was
  before, and so is every other dict that was in the store: the expiry is written into a
  dict at a new address.
\<close>

theorem input_claims_unchanged:
  assumes "data < length h"
  shows "fst (create_access_token cfg now h data expires_delta) ! data = h ! data
         \<and> take (length h) (fst (create_access_token cfg now h data expires_delta)) = h"
  using assms by (simp add: create_access_token_eq Let_def nth_append)

theorem input_claims_unchanged_witness:
  "(0::nat) < length [[(''sub'', PStr [49])]]
   \<and> fst (create_access_token \<lparr>SECRET_KEY = ''k'', ALGORITHM = ''HS256'', ACCESS_TOKEN_EXPIRE_MINUTES = 30\<rparr> 0
            [[(''sub'', PStr [49])]] 0 None) ! 0 = [(''sub'', PStr [49])]"
  using input_claims_unchanged[where data = 0 and h = "[[(''sub'', PStr [49])]]" and now = 0
      and expires_delta = None
      and cfg = "\<lparr>SECRET_KEY = ''k'', ALGORITHM = ''HS256'', ACCESS_TOKEN_EXPIRE_MINUTES = 30\<rparr>"]
  by simp

subsection \<open>C10: a token that makes the decoder raise\<close>

text \<open>
  C10 fails on the code. \<^verbatim>\<open>verify_token\<close> catches JWTError alone, and the decoder
  raises other exceptions: for every setting and at every time, the token whose header
  nests deeper than the recursion limit makes \<^verbatim>\<open>verify_token\<close> raise RecursionError, and
  a token that the secret key has signed over the claims \<^verbatim>\<open>{"exp": null}\<close> makes it raise
  TypeError.
\<close>

theorem verify_token_raises:
  "verify_token conv cfg now Deep_header = Inl RecursionError
   \<and> verify_token conv cfg now
        (Jws (ALGORITHM cfg) [(''exp'', PNone)]
           (Mac (SECRET_KEY cfg) (ALGORITHM cfg) [(''exp'', PNone)]))
       = Inl TypeError"
  by (simp add: verify_token_def validate_claims_def read_time_claim_def)

end
